theory Spec2Isabelle
  imports Complex_Main
begin

section \<open>Python strings and dictionaries\<close>

text \<open>
  A Python \<open>str\<close> is modelled as a \<open>string\<close>; a character stands for a code point
  below 256. The methods below are the ones the parser calls, with the arguments it
  passes (every separator is a single character).
\<close>

definition startswith :: "string \<Rightarrow> string \<Rightarrow> bool" where
  \<comment> \<open>\<open>s.startswith(p)\<close>\<close>
  "startswith s p = (take (length p) s = p)"

definition py_rstrip :: "char list \<Rightarrow> string \<Rightarrow> string" where
  \<comment> \<open>\<open>s.rstrip(chars)\<close>: drops the longest suffix made of characters of \<open>chars\<close>\<close>
  "py_rstrip chars s = rev (dropWhile (\<lambda>c. c \<in> set chars) (rev s))"

definition py_lstrip :: "char list \<Rightarrow> string \<Rightarrow> string" where
  "py_lstrip chars s = dropWhile (\<lambda>c. c \<in> set chars) s"

definition newline_chars :: "char list" where
  \<comment> \<open>the argument \<open>"\n\r"\<close> of \<open>rstrip\<close>\<close>
  "newline_chars = [CHR 0x0A, CHR 0x0D]"

definition whitespace :: "char list" where
  \<comment> \<open>the code points below 256 for which \<open>str.isspace\<close> holds\<close>
  "whitespace = [CHR 0x09, CHR 0x0A, CHR 0x0B, CHR 0x0C, CHR 0x0D,
                 CHR 0x1C, CHR 0x1D, CHR 0x1E, CHR 0x1F, CHR 0x20, CHR 0x85, CHR 0xA0]"

definition strip :: "string \<Rightarrow> string" where
  \<comment> \<open>\<open>s.strip()\<close>\<close>
  "strip s = py_lstrip whitespace (py_rstrip whitespace s)"

fun py_split :: "char \<Rightarrow> nat \<Rightarrow> string \<Rightarrow> string list" where
  \<comment> \<open>\<open>s.split(sep, maxsplit)\<close>: at most \<open>maxsplit\<close> cuts, from the left\<close>
  "py_split sep 0 s = [s]"
| "py_split sep (Suc n) s =
     (if sep \<in> set s
      then takeWhile (\<lambda>c. c \<noteq> sep) s # py_split sep n (tl (dropWhile (\<lambda>c. c \<noteq> sep) s))
      else [s])"

fun join :: "string \<Rightarrow> string list \<Rightarrow> string" where
  \<comment> \<open>\<open>sep.join(xs)\<close>\<close>
  "join sep [] = []"
| "join sep [x] = x"
| "join sep (x # y # ys) = x @ sep @ join sep (y # ys)"


text \<open>
  A \<open>dict\<close> keeps its keys in insertion order, and the exporter reads them in that
  order: an association list. Assigning to a key that is present replaces the value in
  place; a new key goes to the end.
\<close>

type_synonym header = "(string \<times> string) list"

fun dict_set :: "('k \<times> 'v) list \<Rightarrow> 'k \<Rightarrow> 'v \<Rightarrow> ('k \<times> 'v) list" where
  \<comment> \<open>\<open>d[k] = v\<close>\<close>
  "dict_set [] k v = [(k, v)]"
| "dict_set ((k', v') # kvs) k v =
     (if k' = k then (k', v) # kvs else (k', v') # dict_set kvs k v)"

section \<open>The header scan of \<open>parse_mpms_dat\<close>\<close>

record scan_state =
  header_info :: header
  in_data :: bool
  data_start :: "nat option"

definition scan_init :: scan_state where
  "scan_init = \<lparr>header_info = [], in_data = False, data_start = None\<rparr>"

definition header_line :: "string \<Rightarrow> header \<Rightarrow> header" where
  \<comment> \<open>dat_loader.py, the \<open>if\<close>/\<open>elif\<close> of the loop body (lines 35 to 44)\<close>
  "header_line line h =
     (if startswith line ''INFO,'' then
        (case py_split CHR '','' 2 line of
           _ # key # val # _ \<Rightarrow> dict_set h (strip key) (strip val)
         | _ \<Rightarrow> h)
      else if \<not> startswith line '';'' \<and> CHR '','' \<in> set line \<and> CHR ''='' \<notin> set line
              \<and> \<not> startswith line ''[''
      then
        (case py_split CHR '','' 1 line of
           [k, v] \<Rightarrow> dict_set h (strip k) (strip v)
         | _ \<Rightarrow> h)
      else h)"

fun scan_header :: "nat \<Rightarrow> string list \<Rightarrow> scan_state \<Rightarrow> scan_state" where
  \<comment> \<open>dat_loader.py, \<open>for i, line in enumerate(lines)\<close> (lines 29 to 44)\<close>
  "scan_header i [] st = st"
| "scan_header i (l # ls) st =
     (let line = py_rstrip newline_chars l in
      if line = ''[Data]'' then st\<lparr>in_data := True, data_start := Some (i + 1)\<rparr>
      else scan_header (i + 1) ls (st\<lparr>header_info := header_line line (header_info st)\<rparr>))"

section \<open>Tables and the pandas library\<close>

text \<open>
  A \<open>DataFrame\<close> is its columns in order, each a name with its values; the names of a
  frame are pairwise distinct. A numeric value is a float: a finite number, an
  infinity, or the missing value NaN.
\<close>

datatype cell = Finite real | PosInf | NegInf | NaN

type_synonym 'a frame = "(string \<times> 'a list) list"

type_synonym table = "cell frame"

datatype pd_error = EmptyDataError | ParserError

datatype error =
    NoDataSection          \<comment> \<open>\<open>ValueError("No [Data] section found in ...")\<close>\<close>
  | ColumnNotFound string  \<comment> \<open>\<open>ValueError("Column '...' not in DataFrame...")\<close>\<close>
  | NoFinitePairs          \<comment> \<open>\<open>ValueError("No finite (..., moment) pairs to plot.")\<close>\<close>
  | KeyError string        \<comment> \<open>\<open>df[c]\<close> for a name that is not a column\<close>
  | PandasError pd_error   \<comment> \<open>raised inside \<open>pd.read_csv\<close>\<close>

definition columns :: "'a frame \<Rightarrow> string list" where
  \<comment> \<open>\<open>df.columns\<close>\<close>
  "columns df = map fst df"

definition getitem :: "'a frame \<Rightarrow> string \<Rightarrow> error + 'a list" where
  \<comment> \<open>\<open>df[c]\<close>\<close>
  "getitem df c = (case map_of df c of None \<Rightarrow> Inl (KeyError c) | Some vals \<Rightarrow> Inr vals)"

definition assign :: "'a frame \<Rightarrow> string \<Rightarrow> 'a list \<Rightarrow> 'a frame" where
  \<comment> \<open>\<open>df.assign(c=vals)\<close>: replaces the column \<open>c\<close> in place, or adds it at the end\<close>
  "assign df c vals = dict_set df c vals"

fun notna :: "cell \<Rightarrow> bool" where
  "notna NaN = False"
| "notna _ = True"

fun isfinite :: "cell \<Rightarrow> bool" where
  "isfinite (Finite _) = True"
| "isfinite _ = False"

text \<open>
  The module \<open>pd\<close> is a parameter of the parser: \<open>read_csv\<close> takes the text of the data
  block to a frame of cell texts or fails, and \<open>to_numeric\<close> takes the texts of one
  column to floats (the type inference of the reader followed by
  \<open>pd.to_numeric(..., errors="coerce")\<close>).
\<close>

record pandas =
  read_csv :: "string \<Rightarrow> pd_error + string frame"
  to_numeric :: "string list \<Rightarrow> cell list"

section \<open>\<open>parse_mpms_dat\<close> of dat_loader.py\<close>

definition parse_mpms_dat :: "pandas \<Rightarrow> string list \<Rightarrow> error + table \<times> header" where
  \<comment> \<open>the argument is the list \<open>f.readlines()\<close> returns\<close>
  "parse_mpms_dat pd lines =
     (let st = scan_header 0 lines scan_init in
      if \<not> in_data st \<or> data_start st = None then Inl NoDataSection
      else
        let data_block =
              join [CHR 0x0A] (map (py_rstrip newline_chars) (drop (the (data_start st)) lines))
        in case read_csv pd data_block of
             Inl e \<Rightarrow> Inl (PandasError e)
           | Inr df \<Rightarrow> Inr (map (\<lambda>(col, vals). (col, to_numeric pd vals)) df, header_info st))"

section \<open>\<open>parse_mpms_dat\<close> of dat_to_numbers.py\<close>

definition header_line_numbers :: "string \<Rightarrow> header \<Rightarrow> header" where
  \<comment> \<open>dat_to_numbers.py, lines 38 to 47\<close>
  "header_line_numbers line h =
     (if startswith line ''INFO,'' then
        (case py_split CHR '','' 2 line of
           _ # key # val # _ \<Rightarrow> dict_set h (strip key) (strip val)
         | _ \<Rightarrow> h)
      else if \<not> startswith line '';'' \<and> CHR '','' \<in> set line \<and> CHR ''='' \<notin> set line
              \<and> \<not> startswith line ''[''
      then
        (case py_split CHR '','' 1 line of
           [k, v] \<Rightarrow> dict_set h (strip k) (strip v)
         | _ \<Rightarrow> h)
      else h)"

fun scan_header_numbers :: "nat \<Rightarrow> string list \<Rightarrow> scan_state \<Rightarrow> scan_state" where
  \<comment> \<open>dat_to_numbers.py, lines 32 to 47\<close>
  "scan_header_numbers i [] st = st"
| "scan_header_numbers i (l # ls) st =
     (let line = py_rstrip newline_chars l in
      if line = ''[Data]'' then st\<lparr>in_data := True, data_start := Some (i + 1)\<rparr>
      else scan_header_numbers (i + 1) ls
             (st\<lparr>header_info := header_line_numbers line (header_info st)\<rparr>))"

definition parse_mpms_dat_numbers :: "pandas \<Rightarrow> string list \<Rightarrow> error + table \<times> header" where
  "parse_mpms_dat_numbers pd lines =
     (let st = scan_header_numbers 0 lines scan_init in
      if \<not> in_data st \<or> data_start st = None then Inl NoDataSection
      else
        let data_block =
              join [CHR 0x0A] (map (py_rstrip newline_chars) (drop (the (data_start st)) lines))
        in case read_csv pd data_block of
             Inl e \<Rightarrow> Inl (PandasError e)
           | Inr df \<Rightarrow> Inr (map (\<lambda>(col, vals). (col, to_numeric pd vals)) df, header_info st))"

section \<open>Moment column selection and \<open>load_dat\<close>\<close>

definition candidates :: "string list" where
  "candidates = [''DC Moment Free Ctr (emu)'', ''DC Moment Fixed Ctr (emu)'', ''Moment (emu)'']"

definition has_value :: "table \<Rightarrow> string \<Rightarrow> bool" where
  \<comment> \<open>\<open>c in df.columns and df[c].notna().any()\<close>\<close>
  "has_value df c =
     (c \<in> set (columns df) \<and>
      (case getitem df c of Inl _ \<Rightarrow> False | Inr vals \<Rightarrow> \<exists>v\<in>set vals. notna v))"

definition get_moment_column :: "table \<Rightarrow> string option" where
  \<comment> \<open>the loop returns at the first candidate that passes the test\<close>
  "get_moment_column df = find (has_value df) candidates"

definition load_dat_frame :: "table \<Rightarrow> error + table" where
  \<comment> \<open>\<open>load_dat\<close> after the file is parsed (lines 80 to 83)\<close>
  "load_dat_frame df =
     (case get_moment_column df of
        None \<Rightarrow> Inr df
      | Some moment_col \<Rightarrow>
          if moment_col = [] then Inr df
          else (case getitem df moment_col of
                  Inl e \<Rightarrow> Inl e
                | Inr vals \<Rightarrow> Inr (assign df ''Moment'' vals)))"

definition load_dat :: "pandas \<Rightarrow> string list \<Rightarrow> error + table" where
  "load_dat pd lines =
     (case parse_mpms_dat pd lines of
        Inl e \<Rightarrow> Inl e
      | Inr (df, _) \<Rightarrow> load_dat_frame df)"

section \<open>Plotting\<close>

text \<open>
  What is drawn is recorded: an \<open>axes\<close> holds the lines plotted on it and its
  decorations. The plotting functions return the axes of the figure they return.
\<close>

record line2d =
  xdata :: "cell list"
  ydata :: "cell list"
  line_label :: string

record axes =
  ax_lines :: "line2d list"
  ax_xlabel :: string
  ax_ylabel :: string
  ax_title :: string
  ax_hlines :: "real list"
  ax_vlines :: "real list"
  ax_grid :: bool
  ax_legend :: bool

definition new_axes :: axes where
  \<comment> \<open>\<open>plt.subplots(1, 1, ...)\<close>\<close>
  "new_axes = \<lparr>ax_lines = [], ax_xlabel = [], ax_ylabel = [], ax_title = [],
               ax_hlines = [], ax_vlines = [], ax_grid = False, ax_legend = False\<rparr>"

definition finite_mask :: "cell list \<Rightarrow> cell list \<Rightarrow> bool list" where
  \<comment> \<open>\<open>np.isfinite(x) & np.isfinite(y)\<close>\<close>
  "finite_mask x y = map (\<lambda>(a, b). isfinite a \<and> isfinite b) (zip x y)"

definition mask_select :: "'a list \<Rightarrow> bool list \<Rightarrow> 'a list" where
  \<comment> \<open>\<open>x[mask]\<close>\<close>
  "mask_select x msk = map fst (filter snd (zip x msk))"

definition truthy :: "string option \<Rightarrow> bool" where
  \<comment> \<open>the truth value of an optional string: neither \<open>None\<close> nor empty\<close>
  "truthy s = (case s of None \<Rightarrow> False | Some t \<Rightarrow> t \<noteq> [])"

definition field_moment_col :: "table \<Rightarrow> string option \<Rightarrow> string" where
  \<comment> \<open>\<open>plot_moment_vs_field\<close>, lines 96 to 101: the moment column that is plotted\<close>
  "field_moment_col df moment_col =
     (let m1 = (case moment_col of None \<Rightarrow> get_moment_column df | Some c \<Rightarrow> Some c);
          m2 = (case m1 of None \<Rightarrow> ''Moment'' | Some c \<Rightarrow> c)
      in if m2 \<notin> set (columns df) \<and> ''Moment'' \<in> set (columns df) then ''Moment'' else m2)"

definition plot_moment_vs_field ::
  "table \<Rightarrow> string option \<Rightarrow> string \<Rightarrow> string option \<Rightarrow> axes option \<Rightarrow> string option
     \<Rightarrow> error + axes" where
  "plot_moment_vs_field df moment_col field_col title ax label =
     (let mc = field_moment_col df moment_col in
      if field_col \<notin> set (columns df) then Inl (ColumnNotFound field_col)
      else case getitem df field_col of Inl e \<Rightarrow> Inl e | Inr x \<Rightarrow>
           case getitem df mc of Inl e \<Rightarrow> Inl e | Inr y \<Rightarrow>
           let msk = finite_mask x y; x' = mask_select x msk; y' = mask_select y msk in
           if length x' = 0 then Inl NoFinitePairs
           else
             let a0 = (case ax of None \<Rightarrow> new_axes | Some a \<Rightarrow> a);
                 a1 = a0\<lparr>ax_lines := ax_lines a0 @
                         [\<lparr>xdata = x', ydata = y',
                           line_label = (if truthy label then the label else mc)\<rparr>]\<rparr>;
                 a2 = a1\<lparr>ax_xlabel := ''Magnetic Field (Oe)'', ax_ylabel := ''Moment (emu)''\<rparr>;
                 a3 = (if truthy title then a2\<lparr>ax_title := the title\<rparr> else a2);
                 a4 = a3\<lparr>ax_hlines := ax_hlines a3 @ [0], ax_vlines := ax_vlines a3 @ [0],
                         ax_grid := True\<rparr>
             in Inr (if truthy label then a4\<lparr>ax_legend := True\<rparr> else a4))"

definition temperature_moment_col :: "table \<Rightarrow> string option \<Rightarrow> string" where
  \<comment> \<open>\<open>plot_moment_vs_temperature\<close>, lines 139 and 140\<close>
  "temperature_moment_col df moment_col =
     (case moment_col of
        Some c \<Rightarrow> c
      | None \<Rightarrow> (if truthy (get_moment_column df) then the (get_moment_column df)
                 else ''Moment''))"

definition plot_moment_vs_temperature ::
  "table \<Rightarrow> string option \<Rightarrow> string \<Rightarrow> string option \<Rightarrow> axes option \<Rightarrow> error + axes" where
  "plot_moment_vs_temperature df moment_col temp_col title ax =
     (let mc = temperature_moment_col df moment_col in
      if temp_col \<notin> set (columns df) then Inl (ColumnNotFound temp_col)
      else case getitem df temp_col of Inl e \<Rightarrow> Inl e | Inr x \<Rightarrow>
           case getitem df mc of Inl e \<Rightarrow> Inl e | Inr y \<Rightarrow>
           let msk = finite_mask x y; x' = mask_select x msk; y' = mask_select y msk in
           if length x' = 0 then Inl NoFinitePairs
           else
             let a0 = (case ax of None \<Rightarrow> new_axes | Some a \<Rightarrow> a);
                 a1 = a0\<lparr>ax_lines := ax_lines a0 @
                         [\<lparr>xdata = x', ydata = y', line_label = []\<rparr>]\<rparr>;
                 a2 = a1\<lparr>ax_xlabel := ''Temperature (K)'', ax_ylabel := ''Moment (emu)''\<rparr>;
                 a3 = (if truthy title then a2\<lparr>ax_title := the title\<rparr> else a2)
             in Inr (a3\<lparr>ax_grid := True\<rparr>))"

section \<open>The exporter of dat_to_numbers.py\<close>










section \<open>A plain delimited-text reader\<close>

text \<open>
  Modelled from the spec: \<open>pandas.read_csv\<close> and \<open>pandas.to_numeric\<close> are library code
  outside the repository. The spec describes them as a standard delimited-text reader: the
  first line of the block is the header row and names the columns, each later line is
  a row, non-numeric cells become the missing value. The reader below does that for
  plain text: lines end at a line feed, lines of blanks are skipped, fields are cut at
  every comma (quoting is not modelled), names are kept as written (pandas renames
  empty and repeated names, which leaves their number unchanged), a short row is
  filled with missing cells, the extra leading fields of a long first row are taken as
  the row index, and a later row longer than that is rejected. A block with no
  header row is rejected. Numbers are read for unsigned decimal integers only; every
  other text is the missing value.
\<close>

fun fields :: "char \<Rightarrow> string \<Rightarrow> string list" where
  "fields sep [] = [[]]"
| "fields sep (c # cs) =
     (if c = sep then [] # fields sep cs
      else (case fields sep cs of [] \<Rightarrow> [[c]] | f # fs \<Rightarrow> (c # f) # fs))"

definition blank_line :: "string \<Rightarrow> bool" where
  "blank_line l = (\<forall>c\<in>set l. c = CHR 0x20 \<or> c = CHR 0x09)"

definition field_at :: "string list \<Rightarrow> nat \<Rightarrow> string" where
  "field_at r k = (if k < length r then r ! k else [])"

definition plain_read_csv :: "string \<Rightarrow> pd_error + string frame" where
  \<comment> \<open>Modelled from the spec: \<open>pandas.read_csv\<close> on plain text, as described above\<close>
  "plain_read_csv block =
     (case filter (\<lambda>l. \<not> blank_line l) (fields CHR 0x0A block) of
        [] \<Rightarrow> Inl EmptyDataError
      | h # rs \<Rightarrow>
          (let names = fields CHR '','' h;
               rows = map (fields CHR '','') rs;
               n = length names;
               w = (case rows of [] \<Rightarrow> n | r # _ \<Rightarrow> max n (length r))
           in if \<exists>r\<in>set rows. w < length r then Inl ParserError
              else Inr (map (\<lambda>j. (names ! j, map (\<lambda>r. field_at r (w - n + j)) rows))
                         [0..<n])))"

definition digit_value :: "char \<Rightarrow> nat" where
  "digit_value c = length (takeWhile (\<lambda>d. d \<noteq> c) ''0123456789'')"

definition plain_number :: "string \<Rightarrow> cell" where
  \<comment> \<open>Modelled from the spec: numeric coercion of one cell, for unsigned decimal integers\<close>
  "plain_number s =
     (if s \<noteq> [] \<and> (\<forall>c\<in>set s. c \<in> set ''0123456789'')
      then Finite (real (foldl (\<lambda>n c. 10 * n + digit_value c) 0 s))
      else NaN)"

definition plain_pandas :: pandas where
  \<comment> \<open>Modelled from the spec: the two library functions the parser calls\<close>
  "plain_pandas = \<lparr>read_csv = plain_read_csv, to_numeric = map plain_number\<rparr>"

section \<open>Properties\<close>





subsection \<open>The two parsers are the same function\<close>

lemma header_line_numbers_eq: "header_line_numbers line h = header_line line h"
  by (simp add: header_line_numbers_def header_line_def)

lemma scan_header_numbers_eq: "scan_header_numbers i ls st = scan_header i ls st"
  by (induction ls arbitrary: i st) (simp_all add: header_line_numbers_eq Let_def)

lemma parse_mpms_dat_numbers_eq: "parse_mpms_dat_numbers pd ls = parse_mpms_dat pd ls"
  by (simp add: parse_mpms_dat_numbers_def parse_mpms_dat_def scan_header_numbers_eq)








subsection \<open>Classification of the lines before the marker\<close>



subsection \<open>Equality of the two parsers\<close>

text \<open>
  Claim C9. \<open>parse_mpms_dat\<close> of dat_loader.py and \<open>parse_mpms_dat\<close> of
  dat_to_numbers.py return equal results on every list of lines, with every reader: the
  same table and the same mapping, or the same error; one raises exactly when the
  other does.
\<close>

theorem parsers_agree:
  "parse_mpms_dat_numbers pd ls = parse_mpms_dat pd ls \<and>
   ((\<exists>e. parse_mpms_dat_numbers pd ls = Inl e) = (\<exists>e. parse_mpms_dat pd ls = Inl e))"
  by (simp add: parse_mpms_dat_numbers_def parse_mpms_dat_def scan_header_numbers_eq)

lemmas string_defs = startswith_def py_rstrip_def py_lstrip_def newline_chars_def whitespace_def
  strip_def

lemmas plain_defs = plain_pandas_def plain_read_csv_def blank_line_def field_at_def
  plain_number_def digit_value_def

theorem parsers_agree_witness:
  "parse_mpms_dat_numbers plain_pandas
     [''INFO,a,b'' @ [CHR 0x0A], ''[Data]'' @ [CHR 0x0A], ''x,y'' @ [CHR 0x0A], ''1,2'' @ [CHR 0x0A]] =
     Inr ([(''x'', [Finite 1]), (''y'', [Finite 2])], [(''a'', ''b'')]) \<and>
   (\<exists>e. parse_mpms_dat_numbers plain_pandas [''x,y'' @ [CHR 0x0A]] = Inl e)"
proof -
  have "parse_mpms_dat plain_pandas
     [''INFO,a,b'' @ [CHR 0x0A], ''[Data]'' @ [CHR 0x0A], ''x,y'' @ [CHR 0x0A], ''1,2'' @ [CHR 0x0A]] =
     Inr ([(''x'', [Finite 1]), (''y'', [Finite 2])], [(''a'', ''b'')])"
    by (simp add: parse_mpms_dat_def scan_init_def string_defs plain_defs header_line_def
        numeral_2_eq_2 upt_rec)
  moreover have "parse_mpms_dat plain_pandas [''x,y'' @ [CHR 0x0A]] = Inl NoDataSection"
    by (simp add: parse_mpms_dat_def scan_init_def string_defs header_line_def)
  ultimately show ?thesis
    using parsers_agree [of plain_pandas "[''INFO,a,b'' @ [CHR 0x0A], ''[Data]'' @ [CHR 0x0A],
            ''x,y'' @ [CHR 0x0A], ''1,2'' @ [CHR 0x0A]]"]
          parsers_agree [of plain_pandas "[''x,y'' @ [CHR 0x0A]]"]
    by simp
qed

subsection \<open>The missing-section error\<close>

lemma scan_header_no_marker:
  "\<forall>l\<in>set ls. py_rstrip newline_chars l \<noteq> ''[Data]'' \<Longrightarrow>
   scan_header i ls st =
     st\<lparr>header_info := foldl (\<lambda>h l. header_line (py_rstrip newline_chars l) h) (header_info st) ls\<rparr>"
  by (induction ls arbitrary: i st) simp_all

lemma scan_header_marker:
  "py_rstrip newline_chars d = ''[Data]'' \<Longrightarrow>
   \<forall>l\<in>set pre. py_rstrip newline_chars l \<noteq> ''[Data]'' \<Longrightarrow>
   scan_header i (pre @ d # rest) st =
     st\<lparr>header_info := foldl (\<lambda>h l. header_line (py_rstrip newline_chars l) h) (header_info st) pre,
        in_data := True, data_start := Some (i + length pre + 1)\<rparr>"
  by (induction pre arbitrary: i st) simp_all

lemma split_at_marker:
  assumes "\<exists>l\<in>set ls. py_rstrip newline_chars l = ''[Data]''"
  shows "\<exists>pre d rest. ls = pre @ d # rest \<and> py_rstrip newline_chars d = ''[Data]'' \<and>
           (\<forall>l\<in>set pre. py_rstrip newline_chars l \<noteq> ''[Data]'') \<and>
           pre = takeWhile (\<lambda>l. py_rstrip newline_chars l \<noteq> ''[Data]'') ls \<and>
           rest = tl (dropWhile (\<lambda>l. py_rstrip newline_chars l \<noteq> ''[Data]'') ls)"
proof -
  let ?P = "\<lambda>l. py_rstrip newline_chars l \<noteq> ''[Data]''"
  have ne: "dropWhile ?P ls \<noteq> []" using assms by (simp add: dropWhile_eq_Nil_conv)
  then obtain d rest where dr: "dropWhile ?P ls = d # rest" by (cases "dropWhile ?P ls") auto
  have "\<not> ?P d" using dr hd_dropWhile [of ?P ls] ne by force
  moreover have "ls = takeWhile ?P ls @ d # rest" using dr takeWhile_dropWhile_id [of ?P ls] by simp
  moreover have "\<forall>l\<in>set (takeWhile ?P ls). ?P l" by (auto dest: set_takeWhileD)
  ultimately show ?thesis using dr by auto
qed



text \<open>
  Claim C2, as amended. A file with no line equal to \<open>[Data]\<close> fails with the
  missing-section error. A file with such a line never fails with that error: the
  lines after the first marker, without their line breaks and joined by line feeds,
  go to the table reader; when the reader accepts them the result is the pair of the
  coerced table and the mapping collected from the lines before the marker, and when
  it rejects them the reader's error is raised. This holds for every reader and for
  both parsers.
\<close>

theorem data_marker_decides:
  "((\<forall>l\<in>set ls. py_rstrip newline_chars l \<noteq> ''[Data]'') \<longrightarrow>
      parse_mpms_dat pd ls = Inl NoDataSection \<and>
      parse_mpms_dat_numbers pd ls = Inl NoDataSection) \<and>
   ((\<exists>l\<in>set ls. py_rstrip newline_chars l = ''[Data]'') \<longrightarrow>
      parse_mpms_dat pd ls \<noteq> Inl NoDataSection \<and>
      parse_mpms_dat_numbers pd ls \<noteq> Inl NoDataSection \<and>
      parse_mpms_dat_numbers pd ls = parse_mpms_dat pd ls \<and>
      parse_mpms_dat pd ls =
        (case read_csv pd
                (join [CHR 0x0A]
                   (map (py_rstrip newline_chars)
                      (tl (dropWhile (\<lambda>l. py_rstrip newline_chars l \<noteq> ''[Data]'') ls)))) of
           Inl e \<Rightarrow> Inl (PandasError e)
         | Inr df \<Rightarrow>
             Inr (map (\<lambda>(col, vals). (col, to_numeric pd vals)) df,
                  foldl (\<lambda>h l. header_line (py_rstrip newline_chars l) h) []
                    (takeWhile (\<lambda>l. py_rstrip newline_chars l \<noteq> ''[Data]'') ls))))"
proof (intro conjI impI)
  assume none: "\<forall>l\<in>set ls. py_rstrip newline_chars l \<noteq> ''[Data]''"
  show a: "parse_mpms_dat pd ls = Inl NoDataSection"
    by (simp add: parse_mpms_dat_def scan_header_no_marker [OF none] scan_init_def)
  show "parse_mpms_dat_numbers pd ls = Inl NoDataSection"
    using a by (simp add: parse_mpms_dat_numbers_eq)
next
  assume some: "\<exists>l\<in>set ls. py_rstrip newline_chars l = ''[Data]''"
  let ?P = "\<lambda>l. py_rstrip newline_chars l \<noteq> ''[Data]''"
  from split_at_marker [OF some] obtain pre d rest where
    ls: "ls = pre @ d # rest" and d: "py_rstrip newline_chars d = ''[Data]''" and
    pre: "\<forall>l\<in>set pre. ?P l" and tw: "pre = takeWhile ?P ls" and dw: "rest = tl (dropWhile ?P ls)"
    by blast
  have sc: "scan_header 0 ls scan_init =
      \<lparr>header_info = foldl (\<lambda>h l. header_line (py_rstrip newline_chars l) h) [] pre,
       in_data = True, data_start = Some (length pre + 1)\<rparr>"
    unfolding ls using scan_header_marker [OF d pre, of 0 rest scan_init]
    by (simp add: scan_init_def)
  have dr: "drop (Suc (length pre)) ls = rest" unfolding ls by simp
  have b0: "parse_mpms_dat pd ls =
        (case read_csv pd (join [CHR 0x0A] (map (py_rstrip newline_chars) rest)) of
           Inl e \<Rightarrow> Inl (PandasError e)
         | Inr df \<Rightarrow>
             Inr (map (\<lambda>(col, vals). (col, to_numeric pd vals)) df,
                  foldl (\<lambda>h l. header_line (py_rstrip newline_chars l) h) [] pre))"
    by (simp add: parse_mpms_dat_def sc dr Let_def split: sum.split)
  show b: "parse_mpms_dat pd ls =
        (case read_csv pd
                (join [CHR 0x0A] (map (py_rstrip newline_chars) (tl (dropWhile ?P ls)))) of
           Inl e \<Rightarrow> Inl (PandasError e)
         | Inr df \<Rightarrow>
             Inr (map (\<lambda>(col, vals). (col, to_numeric pd vals)) df,
                  foldl (\<lambda>h l. header_line (py_rstrip newline_chars l) h) []
                    (takeWhile ?P ls)))"
    unfolding tw [symmetric] dw [symmetric] by (rule b0)
  show c: "parse_mpms_dat pd ls \<noteq> Inl NoDataSection"
    unfolding b by (simp split: sum.split)
  show "parse_mpms_dat_numbers pd ls \<noteq> Inl NoDataSection"
    using c by (simp add: parse_mpms_dat_numbers_eq)
  show "parse_mpms_dat_numbers pd ls = parse_mpms_dat pd ls"
    by (rule parse_mpms_dat_numbers_eq)
qed

theorem data_marker_decides_witness:
  "parse_mpms_dat plain_pandas [''TITLE,x'' @ [CHR 0x0A], ''1,2'' @ [CHR 0x0A]] = Inl NoDataSection \<and>
   parse_mpms_dat plain_pandas
     [''TITLE,x'' @ [CHR 0x0A], ''[Data]'' @ [CHR 0x0A], ''a,b'' @ [CHR 0x0A], ''1,2'' @ [CHR 0x0A]] =
     Inr ([(''a'', [Finite 1]), (''b'', [Finite 2])], [(''TITLE'', ''x'')])"
proof -
  have "parse_mpms_dat plain_pandas [''TITLE,x'' @ [CHR 0x0A], ''1,2'' @ [CHR 0x0A]] =
          Inl NoDataSection"
    using data_marker_decides [of "[''TITLE,x'' @ [CHR 0x0A], ''1,2'' @ [CHR 0x0A]]" plain_pandas]
    by (simp add: string_defs)
  moreover have "parse_mpms_dat plain_pandas
     [''TITLE,x'' @ [CHR 0x0A], ''[Data]'' @ [CHR 0x0A], ''a,b'' @ [CHR 0x0A], ''1,2'' @ [CHR 0x0A]] =
     Inr ([(''a'', [Finite 1]), (''b'', [Finite 2])], [(''TITLE'', ''x'')])"
    using data_marker_decides [of "[''TITLE,x'' @ [CHR 0x0A], ''[Data]'' @ [CHR 0x0A],
       ''a,b'' @ [CHR 0x0A], ''1,2'' @ [CHR 0x0A]]" plain_pandas]
    by (simp add: string_defs plain_defs header_line_def upt_rec)
  ultimately show ?thesis by simp
qed


text \<open>
  The claim as written promises a pair for every file with a marker. A file whose
  last line is the marker leaves an empty block, which the reader rejects.
\<close>

theorem marker_without_table_counterexample:
  "py_rstrip newline_chars (''[Data]'' @ [CHR 0x0A]) = ''[Data]'' \<and>
   parse_mpms_dat plain_pandas [''TITLE,x'' @ [CHR 0x0A], ''[Data]'' @ [CHR 0x0A]] =
     Inl (PandasError EmptyDataError)"
  by (simp add: parse_mpms_dat_def scan_init_def string_defs plain_defs header_line_def)

subsection \<open>Moment column selection\<close>

lemmas table_defs = get_moment_column_def candidates_def has_value_def getitem_def columns_def
  assign_def

lemma in_columns_iff: "c \<in> set (columns df) \<longleftrightarrow> map_of df c \<noteq> None"
  by (simp add: columns_def map_of_eq_None_iff)

lemma has_value_iff:
  "has_value df c \<longleftrightarrow> (\<exists>vals. map_of df c = Some vals \<and> (\<exists>v\<in>set vals. v \<noteq> NaN))"
proof -
  have n: "\<And>v. notna v \<longleftrightarrow> v \<noteq> NaN"
    by (case_tac v) simp_all
  show ?thesis
    by (cases "map_of df c") (auto simp add: has_value_def getitem_def in_columns_iff n)
qed


text \<open>
  Claim C3, as amended. The selector goes through the fixed priority list
  \<open>DC Moment Free Ctr (emu)\<close>, \<open>DC Moment Fixed Ctr (emu)\<close>, \<open>Moment (emu)\<close> and returns the
  first name that is a column of the table with at least one value other than NaN;
  when no candidate qualifies it returns \<open>None\<close>, which is a value and not an error.
  In particular, for a table where \<open>DC Moment Free Ctr (emu)\<close> is all missing,
  \<open>DC Moment Fixed Ctr (emu)\<close> is absent or all missing, and \<open>Moment (emu)\<close> has a value
  that is not missing, it returns \<open>Moment (emu)\<close>.
\<close>

theorem get_moment_column_priority:
  "(has_value df ''DC Moment Free Ctr (emu)'' \<longrightarrow>
      get_moment_column df = Some ''DC Moment Free Ctr (emu)'') \<and>
   (\<not> has_value df ''DC Moment Free Ctr (emu)'' \<and> has_value df ''DC Moment Fixed Ctr (emu)'' \<longrightarrow>
      get_moment_column df = Some ''DC Moment Fixed Ctr (emu)'') \<and>
   (\<not> has_value df ''DC Moment Free Ctr (emu)'' \<and> \<not> has_value df ''DC Moment Fixed Ctr (emu)'' \<and>
    has_value df ''Moment (emu)'' \<longrightarrow>
      get_moment_column df = Some ''Moment (emu)'') \<and>
   (\<not> has_value df ''DC Moment Free Ctr (emu)'' \<and> \<not> has_value df ''DC Moment Fixed Ctr (emu)'' \<and>
    \<not> has_value df ''Moment (emu)'' \<longrightarrow>
      get_moment_column df = None) \<and>
   (has_value df c \<longleftrightarrow> (\<exists>vals. map_of df c = Some vals \<and> (\<exists>v\<in>set vals. v \<noteq> NaN))) \<and>
   ((\<exists>vals. map_of df ''DC Moment Free Ctr (emu)'' = Some vals \<and> (\<forall>v\<in>set vals. v = NaN)) \<and>
    (map_of df ''DC Moment Fixed Ctr (emu)'' = None \<or>
     (\<exists>vals. map_of df ''DC Moment Fixed Ctr (emu)'' = Some vals \<and> (\<forall>v\<in>set vals. v = NaN))) \<and>
    (\<exists>vals. map_of df ''Moment (emu)'' = Some vals \<and> (\<exists>v\<in>set vals. v \<noteq> NaN)) \<longrightarrow>
      get_moment_column df = Some ''Moment (emu)'')"
proof -
  have sel: "get_moment_column df =
      (if has_value df ''DC Moment Free Ctr (emu)'' then Some ''DC Moment Free Ctr (emu)''
       else if has_value df ''DC Moment Fixed Ctr (emu)'' then Some ''DC Moment Fixed Ctr (emu)''
       else if has_value df ''Moment (emu)'' then Some ''Moment (emu)'' else None)"
    by (simp add: get_moment_column_def candidates_def)
  have part: "get_moment_column df = Some ''Moment (emu)''"
    if "\<exists>vals. map_of df ''DC Moment Free Ctr (emu)'' = Some vals \<and> (\<forall>v\<in>set vals. v = NaN)"
      and "map_of df ''DC Moment Fixed Ctr (emu)'' = None \<or>
        (\<exists>vals. map_of df ''DC Moment Fixed Ctr (emu)'' = Some vals \<and> (\<forall>v\<in>set vals. v = NaN))"
      and "\<exists>vals. map_of df ''Moment (emu)'' = Some vals \<and> (\<exists>v\<in>set vals. v \<noteq> NaN)"
  proof -
    have "\<not> has_value df ''DC Moment Free Ctr (emu)''"
      using that(1) by (auto simp add: has_value_iff)
    moreover have "\<not> has_value df ''DC Moment Fixed Ctr (emu)''"
      using that(2) by (auto simp add: has_value_iff)
    moreover have "has_value df ''Moment (emu)''"
      using that(3) by (simp add: has_value_iff)
    ultimately show ?thesis by (simp add: sel)
  qed
  show ?thesis
    using part by (simp add: sel has_value_iff [of df c])
qed

theorem get_moment_column_priority_witness:
  "get_moment_column [(''DC Moment Free Ctr (emu)'', [NaN, NaN]), (''Moment (emu)'', [NaN, Finite 2])]
     = Some ''Moment (emu)'' \<and>
   get_moment_column [(''Temperature (K)'', [Finite 300])] = None \<and>
   get_moment_column [(''DC Moment Free Ctr (emu)'', [Finite 1]), (''Moment (emu)'', [Finite 2])]
     = Some ''DC Moment Free Ctr (emu)'' \<and>
   get_moment_column [(''DC Moment Fixed Ctr (emu)'', [PosInf]), (''Moment (emu)'', [Finite 2])]
     = Some ''DC Moment Fixed Ctr (emu)''"
proof -
  have "get_moment_column
      [(''DC Moment Free Ctr (emu)'', [NaN, NaN]), (''Moment (emu)'', [NaN, Finite 2])]
     = Some ''Moment (emu)''"
    using get_moment_column_priority
      [of "[(''DC Moment Free Ctr (emu)'', [NaN, NaN]), (''Moment (emu)'', [NaN, Finite 2])]"]
    by simp
  moreover have "get_moment_column [(''Temperature (K)'', [Finite 300])] = None"
    using get_moment_column_priority [of "[(''Temperature (K)'', [Finite 300])]"]
    by (simp add: has_value_def columns_def)
  moreover have "get_moment_column
      [(''DC Moment Free Ctr (emu)'', [Finite 1]), (''Moment (emu)'', [Finite 2])]
     = Some ''DC Moment Free Ctr (emu)''"
    using get_moment_column_priority
      [of "[(''DC Moment Free Ctr (emu)'', [Finite 1]), (''Moment (emu)'', [Finite 2])]"]
    by (simp add: has_value_def columns_def getitem_def)
  moreover have "get_moment_column
      [(''DC Moment Fixed Ctr (emu)'', [PosInf]), (''Moment (emu)'', [Finite 2])]
     = Some ''DC Moment Fixed Ctr (emu)''"
    using get_moment_column_priority
      [of "[(''DC Moment Fixed Ctr (emu)'', [PosInf]), (''Moment (emu)'', [Finite 2])]"]
    by (simp add: has_value_def columns_def getitem_def)
  ultimately show ?thesis by simp
qed


text \<open>
  The particular case of the claim as written leaves \<open>DC Moment Fixed Ctr (emu)\<close>
  open: when that column has a value it comes before \<open>Moment (emu)\<close>.
\<close>

theorem free_missing_fixed_present_counterexample:
  "map_of [(''DC Moment Free Ctr (emu)'', [NaN]), (''DC Moment Fixed Ctr (emu)'', [Finite 1]),
           (''Moment (emu)'', [Finite 2])] ''DC Moment Free Ctr (emu)'' = Some [NaN] \<and>
   map_of [(''DC Moment Free Ctr (emu)'', [NaN]), (''DC Moment Fixed Ctr (emu)'', [Finite 1]),
           (''Moment (emu)'', [Finite 2])] ''Moment (emu)'' = Some [Finite 2] \<and>
   get_moment_column [(''DC Moment Free Ctr (emu)'', [NaN]), (''DC Moment Fixed Ctr (emu)'', [Finite 1]),
           (''Moment (emu)'', [Finite 2])] = Some ''DC Moment Fixed Ctr (emu)'' \<and>
   get_moment_column [(''DC Moment Free Ctr (emu)'', [NaN]), (''DC Moment Fixed Ctr (emu)'', [Finite 1]),
           (''Moment (emu)'', [Finite 2])] \<noteq> Some ''Moment (emu)''"
  by (simp add: table_defs)

subsection \<open>The frame returned by \<open>load_dat\<close>\<close>

lemma dict_set_fresh: "k \<notin> fst ` set d \<Longrightarrow> dict_set d k v = d @ [(k, v)]"
  by (induction d) auto

lemma map_of_dict_set: "map_of (dict_set d k v) = (map_of d)(k \<mapsto> v)"
  by (induction d) (auto simp add: fun_eq_iff)

lemma keys_dict_set:
  "map fst (dict_set d k v) = (if k \<in> set (map fst d) then map fst d else map fst d @ [k])"
  by (induction d) (auto simp add: rev_image_eqI)

lemma get_moment_column_Some:
  assumes "get_moment_column df = Some c"
  shows "c \<in> set candidates \<and> has_value df c"
  using assms by (auto simp add: get_moment_column_def find_Some_iff)

lemma candidates_nonempty: "c \<in> set candidates \<Longrightarrow> c \<noteq> []"
  by (auto simp add: candidates_def)


text \<open>
  Claim C10, as amended. \<open>load_dat\<close> parses the file and passes the table on. When the
  selector finds no column, the table is returned unchanged. When it finds a column
  and the table has no column named \<open>Moment\<close>, the result is the table with exactly
  one column added at the end, named \<open>Moment\<close>, whose values are the values of the
  selected column; every original column is present with its values unchanged. When
  the table already has a column named \<open>Moment\<close>, no column is added: that column
  takes the values of the selected column, and every other column is unchanged.
\<close>

theorem load_dat_frame_effect:
  "(get_moment_column df = None \<longrightarrow> load_dat_frame df = Inr df) \<and>
   (get_moment_column df = Some c \<longrightarrow>
      (\<exists>vals. map_of df c = Some vals \<and>
         (''Moment'' \<notin> set (columns df) \<longrightarrow>
            load_dat_frame df = Inr (df @ [(''Moment'', vals)])) \<and>
         (''Moment'' \<in> set (columns df) \<longrightarrow>
            (\<exists>df'. load_dat_frame df = Inr df' \<and> columns df' = columns df \<and>
               map_of df' ''Moment'' = Some vals \<and>
               (\<forall>k. k \<noteq> ''Moment'' \<longrightarrow> map_of df' k = map_of df k))))) \<and>
   load_dat pd ls =
     (case parse_mpms_dat pd ls of Inl e \<Rightarrow> Inl e | Inr (t, h) \<Rightarrow> load_dat_frame t)"
proof (intro conjI impI)
  assume "get_moment_column df = None"
  then show "load_dat_frame df = Inr df" by (simp add: load_dat_frame_def)
next
  assume sel: "get_moment_column df = Some c"
  from get_moment_column_Some [OF sel] have c: "c \<noteq> []" and hv: "has_value df c"
    by (simp_all add: candidates_nonempty)
  from hv obtain vals where vals: "map_of df c = Some vals"
    by (auto simp add: has_value_iff)
  have ld: "load_dat_frame df = Inr (dict_set df ''Moment'' vals)"
    using sel c vals by (simp add: load_dat_frame_def getitem_def assign_def)
  have fresh: "load_dat_frame df = Inr (df @ [(''Moment'', vals)])"
    if "''Moment'' \<notin> set (columns df)"
    using that ld by (simp add: columns_def dict_set_fresh)
  have present: "\<exists>df'. load_dat_frame df = Inr df' \<and> columns df' = columns df \<and>
               map_of df' ''Moment'' = Some vals \<and>
               (\<forall>k. k \<noteq> ''Moment'' \<longrightarrow> map_of df' k = map_of df k)"
    if "''Moment'' \<in> set (columns df)"
    using that ld by (simp add: columns_def keys_dict_set map_of_dict_set)
  show "\<exists>vals. map_of df c = Some vals \<and>
         (''Moment'' \<notin> set (columns df) \<longrightarrow>
            load_dat_frame df = Inr (df @ [(''Moment'', vals)])) \<and>
         (''Moment'' \<in> set (columns df) \<longrightarrow>
            (\<exists>df'. load_dat_frame df = Inr df' \<and> columns df' = columns df \<and>
               map_of df' ''Moment'' = Some vals \<and>
               (\<forall>k. k \<noteq> ''Moment'' \<longrightarrow> map_of df' k = map_of df k)))"
    using vals fresh present by blast
next
  show "load_dat pd ls =
     (case parse_mpms_dat pd ls of Inl e \<Rightarrow> Inl e | Inr (t, h) \<Rightarrow> load_dat_frame t)"
    by (simp add: load_dat_def)
qed

theorem load_dat_frame_effect_witness:
  "load_dat_frame [(''Temperature (K)'', [Finite 300]), (''Moment (emu)'', [Finite 2])] =
     Inr [(''Temperature (K)'', [Finite 300]), (''Moment (emu)'', [Finite 2]),
          (''Moment'', [Finite 2])] \<and>
   load_dat_frame [(''Temperature (K)'', [Finite 300])] = Inr [(''Temperature (K)'', [Finite 300])] \<and>
   (\<exists>df'. load_dat_frame [(''Moment'', [Finite 5]), (''Moment (emu)'', [Finite 7])] = Inr df' \<and>
      map_of df' ''Moment'' = Some [Finite 7])"
proof -
  have s1: "get_moment_column [(''Temperature (K)'', [Finite 300]), (''Moment (emu)'', [Finite 2])]
      = Some ''Moment (emu)''"
    by (simp add: table_defs)
  have s2: "get_moment_column [(''Temperature (K)'', [Finite 300])] = None"
    by (simp add: table_defs)
  have s3: "get_moment_column [(''Moment'', [Finite 5]), (''Moment (emu)'', [Finite 7])]
      = Some ''Moment (emu)''"
    by (simp add: table_defs)
  have "load_dat_frame [(''Temperature (K)'', [Finite 300]), (''Moment (emu)'', [Finite 2])] =
     Inr [(''Temperature (K)'', [Finite 300]), (''Moment (emu)'', [Finite 2]),
          (''Moment'', [Finite 2])]"
    using load_dat_frame_effect
      [of "[(''Temperature (K)'', [Finite 300]), (''Moment (emu)'', [Finite 2])]" "''Moment (emu)''"]
      s1
    by (simp add: columns_def)
  moreover have "load_dat_frame [(''Temperature (K)'', [Finite 300])] =
      Inr [(''Temperature (K)'', [Finite 300])]"
    using load_dat_frame_effect [of "[(''Temperature (K)'', [Finite 300])]"] s2
    by simp
  moreover have "\<exists>df'. load_dat_frame [(''Moment'', [Finite 5]), (''Moment (emu)'', [Finite 7])] = Inr df' \<and>
      map_of df' ''Moment'' = Some [Finite 7]"
    using load_dat_frame_effect
      [of "[(''Moment'', [Finite 5]), (''Moment (emu)'', [Finite 7])]" "''Moment (emu)''"
          plain_pandas "[]"] s3
    by (auto simp add: columns_def)
  ultimately show ?thesis by simp
qed


text \<open>
  The claim as written has every original column unchanged and one column added. A
  file whose header row names both \<open>Moment\<close> and \<open>Moment (emu)\<close> gives a table whose
  \<open>Moment\<close> column is overwritten and which gains no column.
\<close>

theorem existing_moment_column_counterexample:
  "parse_mpms_dat plain_pandas
     [''[Data]'' @ [CHR 0x0A], ''Moment,Moment (emu)'' @ [CHR 0x0A], ''5,7'' @ [CHR 0x0A]] =
     Inr ([(''Moment'', [Finite 5]), (''Moment (emu)'', [Finite 7])], []) \<and>
   get_moment_column [(''Moment'', [Finite 5]), (''Moment (emu)'', [Finite 7])] =
     Some ''Moment (emu)'' \<and>
   load_dat_frame [(''Moment'', [Finite 5]), (''Moment (emu)'', [Finite 7])] =
     Inr [(''Moment'', [Finite 7]), (''Moment (emu)'', [Finite 7])] \<and>
   load_dat plain_pandas
     [''[Data]'' @ [CHR 0x0A], ''Moment,Moment (emu)'' @ [CHR 0x0A], ''5,7'' @ [CHR 0x0A]] =
     Inr [(''Moment'', [Finite 7]), (''Moment (emu)'', [Finite 7])]"
proof -
  have p: "parse_mpms_dat plain_pandas
     [''[Data]'' @ [CHR 0x0A], ''Moment,Moment (emu)'' @ [CHR 0x0A], ''5,7'' @ [CHR 0x0A]] =
     Inr ([(''Moment'', [Finite 5]), (''Moment (emu)'', [Finite 7])], [])"
    by (simp add: parse_mpms_dat_def scan_init_def string_defs plain_defs upt_rec)
  have l: "load_dat_frame [(''Moment'', [Finite 5]), (''Moment (emu)'', [Finite 7])] =
     Inr [(''Moment'', [Finite 7]), (''Moment (emu)'', [Finite 7])]"
    by (simp add: load_dat_frame_def table_defs)
  have g: "get_moment_column [(''Moment'', [Finite 5]), (''Moment (emu)'', [Finite 7])] =
     Some ''Moment (emu)''"
    by (simp add: table_defs)
  show ?thesis using p l g by (simp add: load_dat_def)
qed

subsection \<open>Plotting: the finite pairs\<close>

lemmas plot_defs = plot_moment_vs_field_def plot_moment_vs_temperature_def field_moment_col_def
  temperature_moment_col_def finite_mask_def mask_select_def truthy_def new_axes_def

lemma zip_finite_mask:
  "zip x (finite_mask x y) =
     map (\<lambda>i. (x ! i, isfinite (x ! i) \<and> isfinite (y ! i))) [0..<min (length x) (length y)]"
proof -
  let ?z = "zip x (finite_mask x y)"
  have len: "length ?z = min (length x) (length y)"
    by (simp add: finite_mask_def)
  have "?z = map ((!) ?z) [0..<length ?z]"
    by (rule map_nth [symmetric])
  also have "\<dots> = map (\<lambda>i. (x ! i, isfinite (x ! i) \<and> isfinite (y ! i))) [0..<length ?z]"
    by (rule map_cong) (simp_all add: finite_mask_def)
  finally show ?thesis by (simp only: len)
qed

lemma zip_finite_mask_snd:
  "zip y (finite_mask x y) =
     map (\<lambda>i. (y ! i, isfinite (x ! i) \<and> isfinite (y ! i))) [0..<min (length x) (length y)]"
proof -
  let ?z = "zip y (finite_mask x y)"
  have len: "length ?z = min (length x) (length y)"
    by (simp add: finite_mask_def)
  have "?z = map ((!) ?z) [0..<length ?z]"
    by (rule map_nth [symmetric])
  also have "\<dots> = map (\<lambda>i. (y ! i, isfinite (x ! i) \<and> isfinite (y ! i))) [0..<length ?z]"
    by (rule map_cong) (simp_all add: finite_mask_def)
  finally show ?thesis by (simp only: len)
qed

lemma mask_select_fst:
  "mask_select x (finite_mask x y) =
     map ((!) x) [i \<leftarrow> [0..<min (length x) (length y)]. isfinite (x ! i) \<and> isfinite (y ! i)]"
  unfolding mask_select_def zip_finite_mask
  by (simp add: filter_map comp_def)

lemma mask_select_snd:
  "mask_select y (finite_mask x y) =
     map ((!) y) [i \<leftarrow> [0..<min (length x) (length y)]. isfinite (x ! i) \<and> isfinite (y ! i)]"
  unfolding mask_select_def zip_finite_mask_snd
  by (simp add: filter_map comp_def)

lemma isfinite_iff: "isfinite v \<longleftrightarrow> v \<noteq> NaN \<and> v \<noteq> PosInf \<and> v \<noteq> NegInf"
  by (cases v) simp_all

lemma getitem_Some: "map_of df c = Some vals \<Longrightarrow> getitem df c = Inr vals"
  by (simp add: getitem_def)

lemma getitem_absent: "c \<notin> set (columns df) \<Longrightarrow> getitem df c = Inl (KeyError c)"
  by (simp add: getitem_def in_columns_iff)

lemma plot_field_present:
  assumes "map_of df field_col = Some x" "map_of df (field_moment_col df moment_col) = Some y"
  shows "plot_moment_vs_field df moment_col field_col title ax label =
     (let idx = [i \<leftarrow> [0..<min (length x) (length y)]. isfinite (x ! i) \<and> isfinite (y ! i)]
      in if idx = [] then Inl NoFinitePairs
         else
           let mc = field_moment_col df moment_col;
               a0 = (case ax of None \<Rightarrow> new_axes | Some a \<Rightarrow> a);
               a1 = a0\<lparr>ax_lines := ax_lines a0 @
                       [\<lparr>xdata = map ((!) x) idx, ydata = map ((!) y) idx,
                         line_label = (if truthy label then the label else mc)\<rparr>]\<rparr>;
               a2 = a1\<lparr>ax_xlabel := ''Magnetic Field (Oe)'', ax_ylabel := ''Moment (emu)''\<rparr>;
               a3 = (if truthy title then a2\<lparr>ax_title := the title\<rparr> else a2);
               a4 = a3\<lparr>ax_hlines := ax_hlines a3 @ [0], ax_vlines := ax_vlines a3 @ [0],
                       ax_grid := True\<rparr>
           in Inr (if truthy label then a4\<lparr>ax_legend := True\<rparr> else a4))"
proof -
  have c: "field_col \<in> set (columns df)" using assms(1) by (simp add: in_columns_iff)
  show ?thesis
    unfolding plot_moment_vs_field_def
    by (simp add: c getitem_Some [OF assms(1)] getitem_Some [OF assms(2)]
        mask_select_fst mask_select_snd Let_def)
qed

lemma plot_temperature_present:
  assumes "map_of df temp_col = Some x" "map_of df (temperature_moment_col df moment_col) = Some y"
  shows "plot_moment_vs_temperature df moment_col temp_col title ax =
     (let idx = [i \<leftarrow> [0..<min (length x) (length y)]. isfinite (x ! i) \<and> isfinite (y ! i)]
      in if idx = [] then Inl NoFinitePairs
         else
           let a0 = (case ax of None \<Rightarrow> new_axes | Some a \<Rightarrow> a);
               a1 = a0\<lparr>ax_lines := ax_lines a0 @
                       [\<lparr>xdata = map ((!) x) idx, ydata = map ((!) y) idx, line_label = []\<rparr>]\<rparr>;
               a2 = a1\<lparr>ax_xlabel := ''Temperature (K)'', ax_ylabel := ''Moment (emu)''\<rparr>;
               a3 = (if truthy title then a2\<lparr>ax_title := the title\<rparr> else a2)
           in Inr (a3\<lparr>ax_grid := True\<rparr>))"
proof -
  have c: "temp_col \<in> set (columns df)" using assms(1) by (simp add: in_columns_iff)
  show ?thesis
    unfolding plot_moment_vs_temperature_def
    by (simp add: c getitem_Some [OF assms(1)] getitem_Some [OF assms(2)]
        mask_select_fst mask_select_snd Let_def)
qed


lemma plot_field_absent:
  assumes "map_of df field_col = None \<or> map_of df (field_moment_col df moment_col) = None"
  shows "\<exists>e. plot_moment_vs_field df moment_col field_col title ax label = Inl e"
proof (cases "map_of df field_col")
  case None
  then have "field_col \<notin> set (columns df)" by (simp add: in_columns_iff)
  then show ?thesis by (simp add: plot_moment_vs_field_def)
next
  case (Some x)
  with assms have "map_of df (field_moment_col df moment_col) = None" by simp
  then have "getitem df (field_moment_col df moment_col) =
      Inl (KeyError (field_moment_col df moment_col))"
    by (simp add: getitem_def)
  then show ?thesis
    using getitem_Some [OF Some] by (simp add: plot_moment_vs_field_def Let_def)
qed

lemma plot_temperature_absent:
  assumes "map_of df temp_col = None \<or> map_of df (temperature_moment_col df moment_col) = None"
  shows "\<exists>e. plot_moment_vs_temperature df moment_col temp_col title ax = Inl e"
proof (cases "map_of df temp_col")
  case None
  then have "temp_col \<notin> set (columns df)" by (simp add: in_columns_iff)
  then show ?thesis by (simp add: plot_moment_vs_temperature_def)
next
  case (Some x)
  with assms have "map_of df (temperature_moment_col df moment_col) = None" by simp
  then have "getitem df (temperature_moment_col df moment_col) =
      Inl (KeyError (temperature_moment_col df moment_col))"
    by (simp add: getitem_def)
  then show ?thesis
    using getitem_Some [OF Some] by (simp add: plot_moment_vs_temperature_def Let_def)
qed

text \<open>
  Claim C5. For a table that has the axis column and the moment column that is
  plotted, both plotting functions keep exactly the positions \<open>i\<close> at which the x value
  and the y value are both finite, in their order, and drop the positions at which
  either value is NaN or an infinity; the call raises an error if and only if no
  position is kept, and the error is then the one for no finite pairs. A table that
  lacks one of the two columns has no pair to keep, and the call raises an error.
\<close>

theorem plots_keep_finite_pairs:
  "(map_of df field_col = Some x \<and> map_of df (field_moment_col df moment_col) = Some y \<longrightarrow>
      (let idx = [i \<leftarrow> [0..<min (length x) (length y)]. isfinite (x ! i) \<and> isfinite (y ! i)];
           r = plot_moment_vs_field df moment_col field_col title ax label
       in ((\<exists>e. r = Inl e) = (idx = [])) \<and>
          (idx = [] \<longrightarrow> r = Inl NoFinitePairs) \<and>
          (\<forall>a. r = Inr a \<longrightarrow>
             xdata (last (ax_lines a)) = map ((!) x) idx \<and>
             ydata (last (ax_lines a)) = map ((!) y) idx))) \<and>
   (map_of df temp_col = Some x \<and> map_of df (temperature_moment_col df moment_col) = Some y' \<longrightarrow>
      (let idx = [i \<leftarrow> [0..<min (length x) (length y')]. isfinite (x ! i) \<and> isfinite (y' ! i)];
           r = plot_moment_vs_temperature df moment_col temp_col title ax
       in ((\<exists>e. r = Inl e) = (idx = [])) \<and>
          (idx = [] \<longrightarrow> r = Inl NoFinitePairs) \<and>
          (\<forall>a. r = Inr a \<longrightarrow>
             xdata (last (ax_lines a)) = map ((!) x) idx \<and>
             ydata (last (ax_lines a)) = map ((!) y') idx))) \<and>
   (map_of df field_col = None \<or> map_of df (field_moment_col df moment_col) = None \<longrightarrow>
      (\<exists>e. plot_moment_vs_field df moment_col field_col title ax label = Inl e)) \<and>
   (map_of df temp_col = None \<or> map_of df (temperature_moment_col df moment_col) = None \<longrightarrow>
      (\<exists>e. plot_moment_vs_temperature df moment_col temp_col title ax = Inl e)) \<and>
   (isfinite v \<longleftrightarrow> v \<noteq> NaN \<and> v \<noteq> PosInf \<and> v \<noteq> NegInf)"
proof (intro conjI impI)
  assume a: "map_of df field_col = Some x \<and> map_of df (field_moment_col df moment_col) = Some y"
  show "let idx = [i \<leftarrow> [0..<min (length x) (length y)]. isfinite (x ! i) \<and> isfinite (y ! i)];
           r = plot_moment_vs_field df moment_col field_col title ax label
       in ((\<exists>e. r = Inl e) = (idx = [])) \<and>
          (idx = [] \<longrightarrow> r = Inl NoFinitePairs) \<and>
          (\<forall>a. r = Inr a \<longrightarrow>
             xdata (last (ax_lines a)) = map ((!) x) idx \<and>
             ydata (last (ax_lines a)) = map ((!) y) idx)"
    using a by (auto simp add: plot_field_present Let_def)
next
  assume a: "map_of df temp_col = Some x \<and> map_of df (temperature_moment_col df moment_col) = Some y'"
  show "let idx = [i \<leftarrow> [0..<min (length x) (length y')]. isfinite (x ! i) \<and> isfinite (y' ! i)];
           r = plot_moment_vs_temperature df moment_col temp_col title ax
       in ((\<exists>e. r = Inl e) = (idx = [])) \<and>
          (idx = [] \<longrightarrow> r = Inl NoFinitePairs) \<and>
          (\<forall>a. r = Inr a \<longrightarrow>
             xdata (last (ax_lines a)) = map ((!) x) idx \<and>
             ydata (last (ax_lines a)) = map ((!) y') idx)"
    using a by (auto simp add: plot_temperature_present Let_def)
next
  assume "map_of df field_col = None \<or> map_of df (field_moment_col df moment_col) = None"
  then show "\<exists>e. plot_moment_vs_field df moment_col field_col title ax label = Inl e"
    by (rule plot_field_absent)
next
  assume "map_of df temp_col = None \<or> map_of df (temperature_moment_col df moment_col) = None"
  then show "\<exists>e. plot_moment_vs_temperature df moment_col temp_col title ax = Inl e"
    by (rule plot_temperature_absent)
next
  show "isfinite v \<longleftrightarrow> v \<noteq> NaN \<and> v \<noteq> PosInf \<and> v \<noteq> NegInf"
    by (rule isfinite_iff)
qed


theorem plots_keep_finite_pairs_witness:
  "(\<exists>a. plot_moment_vs_field
          [(''Magnetic Field (Oe)'', [Finite 1, NaN, Finite 3, PosInf, Finite 5]),
           (''Moment (emu)'', [Finite 10, Finite 20, NaN, Finite 40, Finite 50])]
          None ''Magnetic Field (Oe)'' None None None = Inr a \<and>
        xdata (last (ax_lines a)) = [Finite 1, Finite 5] \<and>
        ydata (last (ax_lines a)) = [Finite 10, Finite 50]) \<and>
   plot_moment_vs_temperature
     [(''Temperature (K)'', [NaN, Finite 2]), (''Moment (emu)'', [Finite 10, NegInf])]
     None ''Temperature (K)'' None None = Inl NoFinitePairs"
proof -
  let ?x = "[Finite 1, NaN, Finite 3, PosInf, Finite 5]"
  let ?y = "[Finite 10, Finite 20, NaN, Finite 40, Finite 50]"
  let ?df = "[(''Magnetic Field (Oe)'', ?x), (''Moment (emu)'', ?y)]"
  let ?dt = "[(''Temperature (K)'', [NaN, Finite 2]), (''Moment (emu)'', [Finite 10, NegInf])]"
  let ?r = "plot_moment_vs_field ?df None ''Magnetic Field (Oe)'' None None None"
  have idx: "[i \<leftarrow> [0..<5]. isfinite (?x ! i) \<and> isfinite (?y ! i)] = [0, 4]"
    by (simp add: upt_rec)
  have pre: "map_of ?df ''Magnetic Field (Oe)'' = Some ?x \<and>
             map_of ?df (field_moment_col ?df None) = Some ?y"
    by (simp add: field_moment_col_def table_defs)
  have no_error: "\<not> (\<exists>e. ?r = Inl e)"
    and data: "\<forall>a. ?r = Inr a \<longrightarrow>
       xdata (last (ax_lines a)) = [Finite 1, Finite 5] \<and>
       ydata (last (ax_lines a)) = [Finite 10, Finite 50]"
    using plots_keep_finite_pairs
            [where df = ?df and field_col = "''Magnetic Field (Oe)''" and x = ?x
               and moment_col = None and y = ?y and title = None and ax = None
               and label = None] pre idx
    by (simp_all add: Let_def)
  have "\<exists>a. ?r = Inr a \<and> xdata (last (ax_lines a)) = [Finite 1, Finite 5] \<and>
        ydata (last (ax_lines a)) = [Finite 10, Finite 50]"
    using no_error data by (cases ?r) auto
  moreover have "plot_moment_vs_temperature ?dt None ''Temperature (K)'' None None =
      Inl NoFinitePairs"
    using plots_keep_finite_pairs
      [where df = ?dt and temp_col = "''Temperature (K)''" and x = "[NaN, Finite 2]"
         and moment_col = None and y' = "[Finite 10, NegInf]" and title = None and ax = None]
    by (simp add: temperature_moment_col_def truthy_def table_defs Let_def upt_rec)
  ultimately show ?thesis by simp
qed


subsection \<open>Plotting: absent columns\<close>

text \<open>
  Claim C6, as amended. A plotting call whose field or temperature axis column is
  absent from the table raises an error. When the moment column passed by the caller
  is absent, \<open>plot_moment_vs_temperature\<close> raises an error, and
  \<open>plot_moment_vs_field\<close> raises an error when the table has no column named
  \<open>Moment\<close>; when the table has a column named \<open>Moment\<close>, \<open>plot_moment_vs_field\<close> plots
  that column in place of the requested one.
\<close>

theorem absent_column_is_fatal:
  "(field_col \<notin> set (columns df) \<longrightarrow>
      plot_moment_vs_field df moment_col field_col title ax label =
        Inl (ColumnNotFound field_col)) \<and>
   (temp_col \<notin> set (columns df) \<longrightarrow>
      plot_moment_vs_temperature df moment_col temp_col title ax =
        Inl (ColumnNotFound temp_col)) \<and>
   (m \<notin> set (columns df) \<and> temp_col \<in> set (columns df) \<longrightarrow>
      plot_moment_vs_temperature df (Some m) temp_col title ax = Inl (KeyError m)) \<and>
   (m \<notin> set (columns df) \<and> ''Moment'' \<notin> set (columns df) \<and> field_col \<in> set (columns df) \<longrightarrow>
      plot_moment_vs_field df (Some m) field_col title ax label = Inl (KeyError m)) \<and>
   (m \<notin> set (columns df) \<and> ''Moment'' \<in> set (columns df) \<longrightarrow>
      plot_moment_vs_field df (Some m) field_col title ax label =
        plot_moment_vs_field df (Some ''Moment'') field_col title ax label)"
proof (intro conjI impI)
  assume "field_col \<notin> set (columns df)"
  then show "plot_moment_vs_field df moment_col field_col title ax label =
        Inl (ColumnNotFound field_col)"
    by (simp add: plot_moment_vs_field_def)
next
  assume "temp_col \<notin> set (columns df)"
  then show "plot_moment_vs_temperature df moment_col temp_col title ax =
        Inl (ColumnNotFound temp_col)"
    by (simp add: plot_moment_vs_temperature_def)
next
  assume a: "m \<notin> set (columns df) \<and> temp_col \<in> set (columns df)"
  then obtain x where x: "map_of df temp_col = Some x"
    by (auto simp add: in_columns_iff)
  show "plot_moment_vs_temperature df (Some m) temp_col title ax = Inl (KeyError m)"
    using a getitem_Some [OF x] getitem_absent [of m df]
    by (simp add: plot_moment_vs_temperature_def temperature_moment_col_def)
next
  assume a: "m \<notin> set (columns df) \<and> ''Moment'' \<notin> set (columns df) \<and> field_col \<in> set (columns df)"
  then obtain x where x: "map_of df field_col = Some x"
    by (auto simp add: in_columns_iff)
  show "plot_moment_vs_field df (Some m) field_col title ax label = Inl (KeyError m)"
    using a getitem_Some [OF x] getitem_absent [of m df]
    by (simp add: plot_moment_vs_field_def field_moment_col_def)
next
  assume a: "m \<notin> set (columns df) \<and> ''Moment'' \<in> set (columns df)"
  then have "field_moment_col df (Some m) = field_moment_col df (Some ''Moment'')"
    by (simp add: field_moment_col_def)
  then show "plot_moment_vs_field df (Some m) field_col title ax label =
        plot_moment_vs_field df (Some ''Moment'') field_col title ax label"
    by (simp add: plot_moment_vs_field_def)
qed

theorem absent_column_is_fatal_witness:
  "plot_moment_vs_field [(''Moment (emu)'', [Finite 1])] None ''Magnetic Field (Oe)'' None None None
     = Inl (ColumnNotFound ''Magnetic Field (Oe)'') \<and>
   plot_moment_vs_temperature [(''Moment (emu)'', [Finite 1])] None ''Temperature (K)'' None None
     = Inl (ColumnNotFound ''Temperature (K)'') \<and>
   plot_moment_vs_temperature [(''Temperature (K)'', [Finite 1]), (''Moment'', [Finite 2])]
     (Some ''M'') ''Temperature (K)'' None None = Inl (KeyError ''M'') \<and>
   plot_moment_vs_field [(''Magnetic Field (Oe)'', [Finite 1]), (''Moment (emu)'', [Finite 2])]
     (Some ''M'') ''Magnetic Field (Oe)'' None None None = Inl (KeyError ''M'') \<and>
   plot_moment_vs_field [(''Magnetic Field (Oe)'', [Finite 1]), (''Moment'', [Finite 2])]
     (Some ''M'') ''Magnetic Field (Oe)'' None None None =
   plot_moment_vs_field [(''Magnetic Field (Oe)'', [Finite 1]), (''Moment'', [Finite 2])]
     (Some ''Moment'') ''Magnetic Field (Oe)'' None None None"
proof -
  have "plot_moment_vs_field [(''Moment (emu)'', [Finite 1])] None ''Magnetic Field (Oe)''
      None None None = Inl (ColumnNotFound ''Magnetic Field (Oe)'')"
    using absent_column_is_fatal
      [of "''Magnetic Field (Oe)''" "[(''Moment (emu)'', [Finite 1])]" None None None None]
    by (simp add: columns_def)
  moreover have "plot_moment_vs_temperature [(''Moment (emu)'', [Finite 1])] None
      ''Temperature (K)'' None None = Inl (ColumnNotFound ''Temperature (K)'')"
    using absent_column_is_fatal
      [of "''Magnetic Field (Oe)''" "[(''Moment (emu)'', [Finite 1])]" None None None None
          "''Temperature (K)''"]
    by (simp add: columns_def)
  moreover have "plot_moment_vs_temperature
      [(''Temperature (K)'', [Finite 1]), (''Moment'', [Finite 2])]
      (Some ''M'') ''Temperature (K)'' None None = Inl (KeyError ''M'')"
    using absent_column_is_fatal
      [of "''Magnetic Field (Oe)''" "[(''Temperature (K)'', [Finite 1]), (''Moment'', [Finite 2])]"
          None None None None "''Temperature (K)''" "''M''"]
    by (simp add: columns_def)
  moreover have "plot_moment_vs_field
      [(''Magnetic Field (Oe)'', [Finite 1]), (''Moment (emu)'', [Finite 2])]
      (Some ''M'') ''Magnetic Field (Oe)'' None None None = Inl (KeyError ''M'')"
    using absent_column_is_fatal
      [of "''Magnetic Field (Oe)''"
          "[(''Magnetic Field (Oe)'', [Finite 1]), (''Moment (emu)'', [Finite 2])]"
          None None None None "''Temperature (K)''" "''M''"]
    by (simp add: columns_def)
  moreover have "plot_moment_vs_field [(''Magnetic Field (Oe)'', [Finite 1]), (''Moment'', [Finite 2])]
     (Some ''M'') ''Magnetic Field (Oe)'' None None None =
   plot_moment_vs_field [(''Magnetic Field (Oe)'', [Finite 1]), (''Moment'', [Finite 2])]
     (Some ''Moment'') ''Magnetic Field (Oe)'' None None None"
    using absent_column_is_fatal
      [of "''Magnetic Field (Oe)''"
          "[(''Magnetic Field (Oe)'', [Finite 1]), (''Moment'', [Finite 2])]"
          None None None None "''Temperature (K)''" "''M''"]
    by (simp add: columns_def)
  ultimately show ?thesis by simp
qed


text \<open>
  The claim as written excludes a substitute column. \<open>plot_moment_vs_field\<close> falls
  back to the column \<open>Moment\<close> when the requested moment column is absent.
\<close>

theorem substitute_moment_column_counterexample:
  "''M'' \<notin> set (columns [(''Magnetic Field (Oe)'', [Finite 1]), (''Moment'', [Finite 2])]) \<and>
   plot_moment_vs_field [(''Magnetic Field (Oe)'', [Finite 1]), (''Moment'', [Finite 2])]
     (Some ''M'') ''Magnetic Field (Oe)'' None None None =
     Inr \<lparr>ax_lines = [\<lparr>xdata = [Finite 1], ydata = [Finite 2], line_label = ''Moment''\<rparr>],
          ax_xlabel = ''Magnetic Field (Oe)'', ax_ylabel = ''Moment (emu)'', ax_title = [],
          ax_hlines = [0], ax_vlines = [0], ax_grid = True, ax_legend = False\<rparr>"
  by (simp add: plot_defs table_defs)

subsection \<open>The exported workbook\<close>










subsection \<open>The batch loop\<close>










subsection \<open>Well-formed files\<close>









lemma case_three:
  "(\<exists>a k v r. xs = a # k # v # r \<and> (case xs of _ # key # val # _ \<Rightarrow> f key val | _ \<Rightarrow> g) = f k v) \<or>
   (case xs of _ # key # val # _ \<Rightarrow> f key val | _ \<Rightarrow> g) = g"
  by (simp split: list.split)

lemma case_two:
  "(\<exists>k v. xs = [k, v] \<and> (case xs of [k, v] \<Rightarrow> f k v | _ \<Rightarrow> g) = f k v) \<or>
   (case xs of [k, v] \<Rightarrow> f k v | _ \<Rightarrow> g) = g"
  by (simp split: list.split)

lemma header_line_cases:
  "(\<forall>h. header_line line h = h) \<or> (\<exists>k v. \<forall>h. header_line line h = dict_set h k v)"
proof (cases "startswith line ''INFO,''")
  case True
  let ?xs = "py_split CHR '','' 2 line"
  have eq: "header_line line h =
      (case ?xs of _ # key # val # _ \<Rightarrow> dict_set h (strip key) (strip val) | _ \<Rightarrow> h)" for h
    using True by (simp add: header_line_def)
  show ?thesis
  proof (cases "\<exists>a k v r. ?xs = a # k # v # r")
    case True
    then obtain a k v r where xs: "?xs = a # k # v # r" by blast
    have "\<forall>h. header_line line h = dict_set h (strip k) (strip v)"
      unfolding eq xs by simp
    then show ?thesis by blast
  next
    case False
    have "header_line line h = h" for h
      unfolding eq using False
      using case_three [where xs = ?xs and f = "\<lambda>key val. dict_set h (strip key) (strip val)"
                and g = h] by blast
    then show ?thesis by blast
  qed
next
  case False
  let ?xs = "py_split CHR '','' 1 line"
  show ?thesis
  proof (cases "\<not> startswith line '';'' \<and> CHR '','' \<in> set line \<and> CHR ''='' \<notin> set line \<and>
                \<not> startswith line ''[''")
    case c: True
    have eq: "header_line line h =
        (case ?xs of [k, v] \<Rightarrow> dict_set h (strip k) (strip v) | _ \<Rightarrow> h)" for h
      using False c by (simp add: header_line_def)
    show ?thesis
    proof (cases "\<exists>k v. ?xs = [k, v]")
      case True
      then obtain k v where xs: "?xs = [k, v]" by blast
      have "\<forall>h. header_line line h = dict_set h (strip k) (strip v)"
        unfolding eq xs by simp
      then show ?thesis by blast
    next
      case False
      have "header_line line h = h" for h
        unfolding eq using False
        using case_two [where xs = ?xs and f = "\<lambda>k v. dict_set h (strip k) (strip v)"
                and g = h] by blast
      then show ?thesis by blast
    qed
  next
    case c: False
    have "header_line line h = h" for h
      using False c by (auto simp add: header_line_def)
    then show ?thesis by blast
  qed
qed


lemma header_line_no_entry:
  "\<forall>k v. header_line line [] \<noteq> [(k, v)] \<Longrightarrow> header_line line h = h"
  using header_line_cases [of line] by auto














end
